theory Spec2Isabelle
  imports Main
begin

section \<open>HDF5 forwarding functions of \<open>arkouda/array_api/_io.py\<close>\<close>

text \<open>
  The module holds two functions, \<open>read_hdf5\<close> and \<open>lshdf\<close>. Each sends one command through
  the messaging client \<open>generic_msg\<close>; \<open>read_hdf5\<close> also prints the reply, builds a handle
  with \<open>create_pdarray\<close> and wraps it with \<open>Array._new\<close>.
\<close>

subsection \<open>Python's \<open>str\<close> on integers\<close>

text \<open>
  The f-string \<open>f"readSingleHdfArray{rank}D"\<close> formats \<open>rank\<close> with an empty format
  specification, which for an \<open>int\<close> is \<open>str(rank)\<close>: the decimal digits, most significant
  first, without leading zeros, after a minus sign when the number is negative.
  Python's integers are unbounded, so \<open>rank\<close> is an \<open>int\<close> here.
\<close>

definition digit_char :: "nat \<Rightarrow> char" where
  "digit_char d = ''0123456789'' ! d"

fun str_nat :: "nat \<Rightarrow> string" where
  "str_nat n =
     (if 10 \<le> n then str_nat (n div 10) @ [digit_char (n mod 10)]
      else [digit_char n])"

declare str_nat.simps [simp del]

definition str_int :: "int \<Rightarrow> string" where
  "str_int i = (if i < 0 then CHR ''-'' # str_nat (nat (- i)) else str_nat (nat i))"

text \<open>Reading a decimal numeral back, used to say what "decimal representation" means.\<close>

definition is_digit :: "char \<Rightarrow> bool" where
  "is_digit c = (c \<in> set ''0123456789'')"

definition digit_val :: "char \<Rightarrow> nat" where
  "digit_val c = of_char c - 48"

definition nat_of_digits :: "string \<Rightarrow> nat" where
  "nat_of_digits ds = foldl (\<lambda>a c. 10 * a + digit_val c) 0 ds"

definition int_of_str :: "string \<Rightarrow> int" where
  "int_of_str cs =
     (case cs of
        [] \<Rightarrow> 0
      | c # ds \<Rightarrow> if c = CHR ''-'' then - int (nat_of_digits ds) else int (nat_of_digits cs))"

subsection \<open>The interpreter: the limit on \<open>str\<close> of an integer, and \<open>print\<close>\<close>

text \<open>
  Two built-ins that \<open>read_hdf5\<close> uses can raise.
  \<^item> Converting an \<open>int\<close> to a decimal string raises \<open>ValueError\<close> when the number has
    more digits (the sign not counted) than \<open>sys.int_max_str_digits\<close>, which is 4300 unless
    it has been changed; the value 0 turns the limit off. (The interpreter accepts 0 and
    values from 640 on; the model allows any limit.)
  \<^item> \<open>print(repMsg)\<close> raises when standard output is closed or broken, or when the text of
    the reply cannot be encoded. Whether it raises is a function of the printed value in a
    given run; a \<open>print\<close> that raises has written nothing.
  The exceptions are values of the type \<open>'e\<close> of all exceptions.
\<close>

record ('e, 'r) python =
  int_max_str_digits :: nat
  str_digits_error :: 'e
  print_error :: "'r \<Rightarrow> 'e option"

definition num_digits :: "int \<Rightarrow> nat" where
  "num_digits i = length (str_nat (nat \<bar>i\<bar>))"

definition within_limit :: "nat \<Rightarrow> int \<Rightarrow> bool" where
  "within_limit lim i = (lim = 0 \<or> num_digits i \<le> lim)"

definition format_int :: "('e, 'r) python \<Rightarrow> int \<Rightarrow> 'e + string" where
  "format_int py i =
     (if within_limit (int_max_str_digits py) i then Inr (str_int i)
      else Inl (str_digits_error py))"

subsection \<open>Collaborators, state and observable events\<close>

text \<open>
  The module imports its three collaborators; their bodies are not part of it, so they are
  parameters of the model.
  \<^item> \<open>generic_msg(cmd, args)\<close> sends a command to the server and returns its reply or raises.
    The reply may depend on the server and the call may change it: the server is the
    component \<open>backend\<close> of the state, of an arbitrary type \<open>'w\<close>.
  \<^item> \<open>create_pdarray(repMsg)\<close> builds a handle of type \<open>'p\<close> from a reply, or raises.
  \<^item> \<open>Array._new(x)\<close> is the private constructor of the class \<open>Array\<close>: it returns the
    wrapper object, of type \<open>'a\<close>, around \<open>x\<close>, or raises.
  An exception is a value of type \<open>'e\<close> on the left of a sum; the module itself has no
  \<open>raise\<close> and no \<open>try\<close>, so it has no exception type of its own.
  A dictionary literal is the association list of its items in the order they are written;
  the keys of both literals in the module are distinct.
\<close>

type_synonym args = "(string \<times> string) list"

record ('w, 'e, 'r, 'p, 'a) collaborators =
  generic_msg :: "string \<Rightarrow> args \<Rightarrow> 'w \<Rightarrow> ('e + 'r) \<times> 'w"
  create_pdarray :: "'r \<Rightarrow> 'e + 'p"
  Array_new :: "'p \<Rightarrow> 'e + 'a"

text \<open>
  Every call to a collaborator and every value written by \<open>print\<close> is recorded, in
  program order, in the component \<open>trace\<close> of the state. The event \<open>Print v\<close> says that
  \<open>v\<close> has been written to standard output.
\<close>

datatype ('r, 'p) event =
    Msg string args
  | Print 'r
  | Ctor 'r
  | New 'p

record ('w, 'r, 'p) state =
  backend :: 'w
  trace :: "('r, 'p) event list"

definition call_generic_msg ::
  "('w, 'e, 'r, 'p, 'a) collaborators \<Rightarrow> string \<Rightarrow> args \<Rightarrow> ('w, 'r, 'p) state
     \<Rightarrow> ('e + 'r) \<times> ('w, 'r, 'p) state" where
  "call_generic_msg env cmd as s =
     (case generic_msg env cmd as (backend s) of
        (rep, b) \<Rightarrow> (rep, s\<lparr>backend := b, trace := trace s @ [Msg cmd as]\<rparr>))"

definition print ::
  "('e, 'r) python \<Rightarrow> 'r \<Rightarrow> ('w, 'r, 'p) state \<Rightarrow> ('e + unit) \<times> ('w, 'r, 'p) state" where
  "print py v s =
     (case print_error py v of
        Some e \<Rightarrow> (Inl e, s)
      | None \<Rightarrow> (Inr (), s\<lparr>trace := trace s @ [Print v]\<rparr>))"

definition call_create_pdarray ::
  "('w, 'e, 'r, 'p, 'a) collaborators \<Rightarrow> 'r \<Rightarrow> ('w, 'r, 'p) state
     \<Rightarrow> ('e + 'p) \<times> ('w, 'r, 'p) state" where
  "call_create_pdarray env rep s = (create_pdarray env rep, s\<lparr>trace := trace s @ [Ctor rep]\<rparr>)"

definition call_Array_new ::
  "('w, 'e, 'r, 'p, 'a) collaborators \<Rightarrow> 'p \<Rightarrow> ('w, 'r, 'p) state
     \<Rightarrow> ('e + 'a) \<times> ('w, 'r, 'p) state" where
  "call_Array_new env x s = (Array_new env x, s\<lparr>trace := trace s @ [New x]\<rparr>)"

subsection \<open>The two functions\<close>

text \<open>
  \<^verbatim>\<open>
  def read_hdf5(filename: str, dataset: str, rank: int, /) -> Array:
      repMsg = generic_msg(
          cmd=f"readSingleHdfArray{rank}D",
          args={"dset": dataset, "filename": filename},
      )
      print(repMsg)
      return Array._new(create_pdarray(repMsg))
  \<close>
\<close>

text \<open>
  The f-string is evaluated first, then the dictionary, then \<open>generic_msg\<close> is called. An
  exception raised at any step ends the function there and goes to the caller.
\<close>

definition read_hdf5 ::
  "('e, 'r) python \<Rightarrow> ('w, 'e, 'r, 'p, 'a) collaborators \<Rightarrow> string \<Rightarrow> string \<Rightarrow> int
     \<Rightarrow> ('w, 'r, 'p) state \<Rightarrow> ('e + 'a) \<times> ('w, 'r, 'p) state" where
  "read_hdf5 py env filename dataset rank s =
     (case format_int py rank of
        Inl e \<Rightarrow> (Inl e, s)
      | Inr digits \<Rightarrow>
          (case call_generic_msg env (''readSingleHdfArray'' @ digits @ ''D'')
                  [(''dset'', dataset), (''filename'', filename)] s of
             (Inl e, s1) \<Rightarrow> (Inl e, s1)
           | (Inr repMsg, s1) \<Rightarrow>
               (case print py repMsg s1 of
                  (Inl e, s2) \<Rightarrow> (Inl e, s2)
                | (Inr u, s2) \<Rightarrow>
                    (case call_create_pdarray env repMsg s2 of
                       (Inl e, s3) \<Rightarrow> (Inl e, s3)
                     | (Inr x, s3) \<Rightarrow> call_Array_new env x s3))))"

text \<open>
  \<^verbatim>\<open>
  def lshdf(filename: str):
      repMsg = generic_msg(cmd="lshdf", args={"filename": filename})
      return repMsg
  \<close>
\<close>

definition lshdf ::
  "('w, 'e, 'r, 'p, 'a) collaborators \<Rightarrow> string \<Rightarrow> ('w, 'r, 'p) state
     \<Rightarrow> ('e + 'r) \<times> ('w, 'r, 'p) state" where
  "lshdf env filename s =
     (case call_generic_msg env ''lshdf'' [(''filename'', filename)] s of
        (Inl e, s1) \<Rightarrow> (Inl e, s1)
      | (Inr repMsg, s1) \<Rightarrow> (Inr repMsg, s1))"

subsection \<open>Reading a trace\<close>

text \<open>The events one call adds to the trace, and the calls of each kind among them.\<close>

definition events_of ::
  "(('w, 'r, 'p) state \<Rightarrow> 'x \<times> ('w, 'r, 'p) state) \<Rightarrow> ('w, 'r, 'p) state \<Rightarrow> ('r, 'p) event list" where
  "events_of f s = drop (length (trace s)) (trace (snd (f s)))"

fun msg_calls :: "('r, 'p) event list \<Rightarrow> (string \<times> args) list" where
  "msg_calls [] = []"
| "msg_calls (Msg cmd as # evs) = (cmd, as) # msg_calls evs"
| "msg_calls (ev # evs) = msg_calls evs"

fun printed :: "('r, 'p) event list \<Rightarrow> 'r list" where
  "printed [] = []"
| "printed (Print v # evs) = v # printed evs"
| "printed (ev # evs) = printed evs"

fun ctor_calls :: "('r, 'p) event list \<Rightarrow> 'r list" where
  "ctor_calls [] = []"
| "ctor_calls (Ctor rep # evs) = rep # ctor_calls evs"
| "ctor_calls (ev # evs) = ctor_calls evs"

fun new_calls :: "('r, 'p) event list \<Rightarrow> 'p list" where
  "new_calls [] = []"
| "new_calls (New x # evs) = x # new_calls evs"
| "new_calls (ev # evs) = new_calls evs"

subsection \<open>A stand-in interpreter and server for evaluating the functions\<close>

text \<open>
  Test doubles. \<open>demo_py\<close> is an interpreter with the default limit of 4300 digits and a
  working standard output; \<open>closed_stdout_py\<close> is the same with standard output closed, so
  that every \<open>print\<close> raises. In the role of the collaborators, the server knows one file, \<open>data.h5\<close>,
  with the datasets \<open>temps\<close> and \<open>raw\<close>, and counts the requests it has handled. A read of
  \<open>temps\<close> is answered with \<open>created\<close> and the command; a read of \<open>raw\<close> with a reply that
  \<open>demo_create_pdarray\<close> rejects. Python values of different classes live in one universe,
  so the handle and its wrapper are two constructors of one type.
\<close>

datatype obj = Pdarray_obj string | Array_obj obj

definition demo_generic_msg :: "string \<Rightarrow> args \<Rightarrow> nat \<Rightarrow> (string + string) \<times> nat" where
  "demo_generic_msg cmd as n =
     (if map_of as ''filename'' \<noteq> Some ''data.h5'' then (Inl ''file not found'', Suc n)
      else if cmd = ''lshdf'' then (Inr ''temps raw'', Suc n)
      else if map_of as ''dset'' = Some ''temps'' then (Inr (''created '' @ cmd), Suc n)
      else if map_of as ''dset'' = Some ''raw'' then (Inr ''???'', Suc n)
      else (Inl ''dataset not found'', Suc n))"

definition demo_create_pdarray :: "string \<Rightarrow> string + obj" where
  "demo_create_pdarray rep =
     (if take 8 rep = ''created '' then Inr (Pdarray_obj (drop 8 rep))
      else Inl ''unparsable reply'')"

definition demo_env :: "(nat, string, string, obj, obj) collaborators" where
  "demo_env = \<lparr>generic_msg = demo_generic_msg, create_pdarray = demo_create_pdarray,
                Array_new = (\<lambda>x. Inr (Array_obj x))\<rparr>"

definition demo_py :: "(string, string) python" where
  "demo_py = \<lparr>int_max_str_digits = 4300,
               str_digits_error = ''ValueError: Exceeds the limit for integer string conversion'',
               print_error = (\<lambda>v. None)\<rparr>"

definition closed_stdout_py :: "(string, string) python" where
  "closed_stdout_py =
     demo_py\<lparr>print_error := (\<lambda>v. Some ''ValueError: I/O operation on closed file'')\<rparr>"

definition demo_state :: "nat \<Rightarrow> (nat, string, obj) state" where
  "demo_state n = \<lparr>backend = n, trace = []\<rparr>"

section \<open>Properties\<close>

subsection \<open>Decimal numerals\<close>

lemma digit_val_digit_char: "d < 10 \<Longrightarrow> digit_val (digit_char d) = d"
  unfolding digit_val_def digit_char_def
  by (auto simp: less_Suc_eq numeral_eq_Suc nth_Cons')

lemma is_digit_digit_char: "d < 10 \<Longrightarrow> is_digit (digit_char d)"
  unfolding is_digit_def digit_char_def
  by (auto simp: less_Suc_eq numeral_eq_Suc nth_Cons')

lemma digit_char_eq_zero: "d < 10 \<Longrightarrow> digit_char d = CHR ''0'' \<longleftrightarrow> d = 0"
  unfolding digit_char_def
  by (auto simp: less_Suc_eq numeral_eq_Suc nth_Cons')

lemma not_is_digit_minus: "\<not> is_digit CHR ''-''"
  by (simp add: is_digit_def)

lemma nat_of_digits_snoc: "nat_of_digits (ds @ [c]) = 10 * nat_of_digits ds + digit_val c"
  by (simp add: nat_of_digits_def)

lemma nat_of_digits_str_nat: "nat_of_digits (str_nat n) = n"
proof (induction n rule: str_nat.induct)
  case (1 n)
  show ?case
  proof (cases "10 \<le> n")
    case True
    with 1 show ?thesis
      by (subst str_nat.simps) (simp add: nat_of_digits_snoc digit_val_digit_char)
  next
    case False
    then show ?thesis
      by (subst str_nat.simps) (simp add: nat_of_digits_def digit_val_digit_char)
  qed
qed

lemma str_nat_digits: "list_all is_digit (str_nat n)"
proof (induction n rule: str_nat.induct)
  case (1 n)
  show ?case
  proof (cases "10 \<le> n")
    case True
    with 1 show ?thesis
      by (subst str_nat.simps) (simp add: is_digit_digit_char)
  next
    case False
    then show ?thesis
      by (subst str_nat.simps) (simp add: is_digit_digit_char)
  qed
qed

lemma str_nat_not_Nil: "str_nat n \<noteq> []"
  by (subst str_nat.simps) simp

lemma str_nat_leading: "0 < n \<Longrightarrow> take 1 (str_nat n) \<noteq> ''0''"
proof (induction n rule: str_nat.induct)
  case (1 n)
  show ?case
  proof (cases "10 \<le> n")
    case True
    then have "0 < n div 10" by simp
    with 1 True have "take 1 (str_nat (n div 10)) \<noteq> ''0''" by simp
    moreover have "take 1 (str_nat (n div 10) @ [digit_char (n mod 10)]) = take 1 (str_nat (n div 10))"
      using str_nat_not_Nil [of "n div 10"] by (cases "str_nat (n div 10)") simp_all
    ultimately show ?thesis
      using True by (subst str_nat.simps) simp
  next
    case False
    with 1(2) show ?thesis
      by (subst str_nat.simps) (simp add: digit_char_eq_zero)
  qed
qed

lemma str_nat_no_sign: "str_nat n = c # cs \<Longrightarrow> c \<noteq> CHR ''-''"
  using str_nat_digits [of n] not_is_digit_minus by auto

lemma int_of_str_str_int: "int_of_str (str_int i) = i"
proof (cases "i < 0")
  case True
  then show ?thesis
    by (simp add: int_of_str_def str_int_def nat_of_digits_str_nat)
next
  case False
  obtain c cs where eq: "str_nat (nat i) = c # cs"
    using str_nat_not_Nil [of "nat i"] by (cases "str_nat (nat i)") auto
  have "c \<noteq> CHR ''-''" using str_nat_no_sign [OF eq] .
  moreover have "nat_of_digits (c # cs) = nat i"
    using nat_of_digits_str_nat [of "nat i"] eq by simp
  ultimately show ?thesis
    using False eq by (simp add: int_of_str_def str_int_def)
qed

lemma str_int_pos: "0 < i \<Longrightarrow> str_int i = str_nat (nat i)"
  by (simp add: str_int_def)

subsection \<open>The number of digits\<close>

lemma str_nat_length_gt: "10 ^ k \<le> n \<Longrightarrow> k < length (str_nat n)"
proof (induction k arbitrary: n)
  case 0
  show ?case using str_nat_not_Nil [of n] by simp
next
  case (Suc k)
  then have big: "10 \<le> n" and "10 ^ k \<le> n div 10"
    by (auto simp: less_eq_div_iff_mult_less_eq intro: order_trans [of 10 "10 * 10 ^ k"])
  then have "k < length (str_nat (n div 10))"
    using Suc.IH by blast
  with big show ?case
    by (subst str_nat.simps) simp
qed

lemma str_nat_length_le: "n < 10 ^ Suc k \<Longrightarrow> length (str_nat n) \<le> Suc k"
proof (induction k arbitrary: n)
  case 0
  then show ?case by (subst str_nat.simps) simp
next
  case (Suc k)
  show ?case
  proof (cases "10 \<le> n")
    case True
    from Suc.prems have "n div 10 < 10 ^ Suc k"
      by (simp add: div_less_iff_less_mult mult.commute)
    then have "length (str_nat (n div 10)) \<le> Suc k"
      by (rule Suc.IH)
    with True show ?thesis by (subst str_nat.simps) simp
  next
    case False
    then show ?thesis by (subst str_nat.simps) simp
  qed
qed

lemma within_limit_iff: "within_limit lim i \<longleftrightarrow> lim = 0 \<or> \<bar>i\<bar> < 10 ^ lim"
proof (cases lim)
  case 0
  then show ?thesis by (simp add: within_limit_def)
next
  case (Suc k)
  have "num_digits i \<le> Suc k \<longleftrightarrow> nat \<bar>i\<bar> < 10 ^ Suc k"
    unfolding num_digits_def
    using str_nat_length_le [of "nat \<bar>i\<bar>" k] str_nat_length_gt [of "Suc k" "nat \<bar>i\<bar>"]
    by (meson leD leI)
  also have "\<dots> \<longleftrightarrow> \<bar>i\<bar> < 10 ^ Suc k"
    by (simp add: nat_less_iff)
  finally show ?thesis using Suc by (simp add: within_limit_def)
qed

lemma over_limit_pos: "0 < lim \<Longrightarrow> \<not> within_limit lim (10 ^ lim)"
  by (simp add: within_limit_iff)

lemma over_limit_neg: "0 < lim \<Longrightarrow> \<not> within_limit lim (- (10 ^ lim))"
  by (simp add: within_limit_iff)

lemma within_limit_small: "\<bar>i\<bar> < 10 \<Longrightarrow> within_limit lim i"
  by (cases lim) (simp_all add: within_limit_iff order_less_le_trans [of _ 10 "10 * 10 ^ _"])

subsection \<open>What one call does\<close>

lemma read_hdf5_over_limit:
  "\<not> within_limit (int_max_str_digits py) rank \<Longrightarrow>
     read_hdf5 py env filename dataset rank s = (Inl (str_digits_error py), s)"
  by (simp add: read_hdf5_def format_int_def)

lemma read_hdf5_events:
  "events_of (read_hdf5 py env filename dataset rank) s =
     (if within_limit (int_max_str_digits py) rank then
        Msg (''readSingleHdfArray'' @ str_int rank @ ''D'')
          [(''dset'', dataset), (''filename'', filename)]
        # (case fst (generic_msg env (''readSingleHdfArray'' @ str_int rank @ ''D'')
                      [(''dset'', dataset), (''filename'', filename)] (backend s)) of
             Inl e \<Rightarrow> []
           | Inr repMsg \<Rightarrow>
               (case print_error py repMsg of
                  Some e \<Rightarrow> []
                | None \<Rightarrow>
                    Print repMsg # Ctor repMsg
                    # (case create_pdarray env repMsg of Inl e \<Rightarrow> [] | Inr x \<Rightarrow> [New x])))
      else [])"
  by (auto simp add: events_of_def read_hdf5_def format_int_def call_generic_msg_def print_def
      call_create_pdarray_def call_Array_new_def split: prod.splits sum.splits option.splits)

lemma read_hdf5_result:
  "fst (read_hdf5 py env filename dataset rank s) =
     (if within_limit (int_max_str_digits py) rank then
        (case fst (generic_msg env (''readSingleHdfArray'' @ str_int rank @ ''D'')
                     [(''dset'', dataset), (''filename'', filename)] (backend s)) of
           Inl e \<Rightarrow> Inl e
         | Inr repMsg \<Rightarrow>
             (case print_error py repMsg of
                Some e \<Rightarrow> Inl e
              | None \<Rightarrow>
                  (case create_pdarray env repMsg of Inl e \<Rightarrow> Inl e | Inr x \<Rightarrow> Array_new env x)))
      else Inl (str_digits_error py))"
  by (simp add: read_hdf5_def format_int_def call_generic_msg_def print_def
      call_create_pdarray_def call_Array_new_def split: prod.splits sum.splits option.splits)

lemma lshdf_unfold:
  "lshdf env filename s =
     (case generic_msg env ''lshdf'' [(''filename'', filename)] (backend s) of
        (rep, b) \<Rightarrow> (rep, s\<lparr>backend := b,
                             trace := trace s @ [Msg ''lshdf'' [(''filename'', filename)]]\<rparr>))"
  by (simp add: lshdf_def call_generic_msg_def split: prod.splits sum.splits)

lemma lshdf_events:
  "events_of (lshdf env filename) s = [Msg ''lshdf'' [(''filename'', filename)]]"
  by (simp add: events_of_def lshdf_unfold split: prod.splits)

lemma lshdf_result:
  "fst (lshdf env filename s) = fst (generic_msg env ''lshdf'' [(''filename'', filename)] (backend s))"
  by (simp add: lshdf_unfold split: prod.splits)

lemma read_hdf5_msg_calls:
  "msg_calls (events_of (read_hdf5 py env filename dataset rank) s) =
     (if within_limit (int_max_str_digits py) rank then
        [(''readSingleHdfArray'' @ str_int rank @ ''D'', [(''dset'', dataset), (''filename'', filename)])]
      else [])"
  by (simp add: read_hdf5_events split: sum.splits option.splits)

subsection \<open>Evaluating the stand-ins\<close>

lemmas demo_simps =
  demo_env_def demo_py_def closed_stdout_py_def demo_state_def demo_generic_msg_def
  demo_create_pdarray_def str_int_def str_nat.simps digit_char_def

lemma demo_limit:
  "int_max_str_digits demo_py = 4300" "int_max_str_digits closed_stdout_py = 4300"
  by (simp_all add: demo_py_def closed_stdout_py_def)

lemma demo_over_limit_pos: "\<not> within_limit (int_max_str_digits demo_py) (10 ^ 4300)"
  unfolding demo_limit by (rule over_limit_pos) simp

lemma demo_over_limit_neg: "\<not> within_limit (int_max_str_digits demo_py) (- (10 ^ 4300))"
  unfolding demo_limit by (rule over_limit_neg) simp

lemma demo_str_digits_error:
  "str_digits_error demo_py = ''ValueError: Exceeds the limit for integer string conversion''"
  by (simp add: demo_py_def)

lemma str_int_2: "str_int 2 = ''2''"
  by (simp add: str_int_def str_nat.simps digit_char_def)

lemma demo_read_temps:
  "fst (generic_msg demo_env ''readSingleHdfArray2D''
          [(''dset'', ''temps''), (''filename'', ''data.h5'')] (backend (demo_state n)))
     = Inr ''created readSingleHdfArray2D''"
  by (simp add: demo_simps)

lemma demo_handle_temps:
  "create_pdarray demo_env ''created readSingleHdfArray2D'' = Inr (Pdarray_obj ''readSingleHdfArray2D'')"
  by (simp add: demo_simps)


lemma demo_prints: "print_error demo_py v = None"
  by (simp add: demo_py_def)

lemma closed_stdout_raises:
  "print_error closed_stdout_py v = Some ''ValueError: I/O operation on closed file''"
  by (simp add: closed_stdout_py_def)

lemma demo_wraps: "Array_new demo_env x = Inr (Array_obj x)"
  by (simp add: demo_env_def)

subsection \<open>The value \<open>read_hdf5\<close> returns\<close>

text \<open>
  C1 as the specification words it: \<open>read_hdf5\<close> returns exactly what the handle constructor
  \<open>create_pdarray\<close> returned for the raw reply, with nothing applied afterwards. The source
  returns \<open>Array._new(create_pdarray(repMsg))\<close>. With the stand-ins, reading \<open>temps\<close>
  from \<open>data.h5\<close> at rank 2 calls the constructor once, with the reply, and the constructor
  returns the handle \<open>Pdarray_obj ''readSingleHdfArray2D''\<close>; the function returns another
  value, the \<open>Array\<close> object around that handle.
\<close>

theorem read_hdf5_bare_handle_counterexample:
  "create_pdarray demo_env ''created readSingleHdfArray2D'' = Inr (Pdarray_obj ''readSingleHdfArray2D'')
   \<and> ctor_calls (events_of (read_hdf5 demo_py demo_env ''data.h5'' ''temps'' 2) (demo_state 0))
       = [''created readSingleHdfArray2D'']
   \<and> fst (read_hdf5 demo_py demo_env ''data.h5'' ''temps'' 2 (demo_state 0))
       \<noteq> Inr (Pdarray_obj ''readSingleHdfArray2D'')"
  by (simp add: read_hdf5_events read_hdf5_result within_limit_small str_int_2 demo_read_temps
      demo_handle_temps demo_prints demo_wraps)

text \<open>
  C1, amended. For every file name, dataset and rank, \<open>read_hdf5\<close> makes exactly one call to
  the messaging client when the rank is within the interpreter's limit on the digits of a
  converted integer, and none otherwise. For a rank within the limit: when that call returns
  a reply and \<open>print\<close> of the reply does not raise, \<open>read_hdf5\<close> makes exactly one call to
  the handle constructor \<open>create_pdarray\<close>, with that raw reply; when the constructor returns
  a handle, \<open>read_hdf5\<close> makes exactly one call to \<open>Array._new\<close>, with that handle, and the
  outcome of \<open>read_hdf5\<close> is the outcome of \<open>Array._new\<close>, the \<open>Array\<close> object it returns or
  the exception it raises. These four events, the \<open>print\<close> among them, are then all it does.
\<close>

theorem read_hdf5_wraps_handle:
  "msg_calls (events_of (read_hdf5 py env filename dataset rank) s) =
     (if within_limit (int_max_str_digits py) rank
      then [(''readSingleHdfArray'' @ str_int rank @ ''D'',
             [(''dset'', dataset), (''filename'', filename)])]
      else [])
   \<and> (within_limit (int_max_str_digits py) rank
        \<longrightarrow> fst (generic_msg env (''readSingleHdfArray'' @ str_int rank @ ''D'')
                   [(''dset'', dataset), (''filename'', filename)] (backend s)) = Inr repMsg
        \<longrightarrow> print_error py repMsg = None
        \<longrightarrow> ctor_calls (events_of (read_hdf5 py env filename dataset rank) s) = [repMsg]
          \<and> (create_pdarray env repMsg = Inr x
               \<longrightarrow> events_of (read_hdf5 py env filename dataset rank) s =
                     [Msg (''readSingleHdfArray'' @ str_int rank @ ''D'')
                        [(''dset'', dataset), (''filename'', filename)],
                      Print repMsg, Ctor repMsg, New x]
                 \<and> new_calls (events_of (read_hdf5 py env filename dataset rank) s) = [x]
                 \<and> fst (read_hdf5 py env filename dataset rank s) = Array_new env x))"
  by (simp add: read_hdf5_msg_calls)
    (simp add: read_hdf5_events read_hdf5_result split: sum.splits)

theorem read_hdf5_wraps_handle_witness:
  "within_limit (int_max_str_digits demo_py) 2
   \<and> fst (generic_msg demo_env (''readSingleHdfArray'' @ str_int 2 @ ''D'')
          [(''dset'', ''temps''), (''filename'', ''data.h5'')] (backend (demo_state 0)))
     = Inr ''created readSingleHdfArray2D''
   \<and> print_error demo_py ''created readSingleHdfArray2D'' = None
   \<and> create_pdarray demo_env ''created readSingleHdfArray2D'' = Inr (Pdarray_obj ''readSingleHdfArray2D'')
   \<and> msg_calls (events_of (read_hdf5 demo_py demo_env ''data.h5'' ''temps'' 2) (demo_state 0)) =
       [(''readSingleHdfArray2D'', [(''dset'', ''temps''), (''filename'', ''data.h5'')])]
   \<and> ctor_calls (events_of (read_hdf5 demo_py demo_env ''data.h5'' ''temps'' 2) (demo_state 0)) =
       [''created readSingleHdfArray2D'']
   \<and> new_calls (events_of (read_hdf5 demo_py demo_env ''data.h5'' ''temps'' 2) (demo_state 0)) =
       [Pdarray_obj ''readSingleHdfArray2D'']
   \<and> fst (read_hdf5 demo_py demo_env ''data.h5'' ''temps'' 2 (demo_state 0))
       = Inr (Array_obj (Pdarray_obj ''readSingleHdfArray2D''))"
  using read_hdf5_wraps_handle [of demo_py demo_env "''data.h5''" "''temps''" 2 "demo_state 0"
      "''created readSingleHdfArray2D''" "Pdarray_obj ''readSingleHdfArray2D''"]
  by (simp add: within_limit_small demo_prints demo_wraps str_int_2 demo_read_temps
      demo_handle_temps)

subsection \<open>The command and its arguments\<close>

text \<open>
  C2 as the specification words it: for every rank in 1, 2, 3, ... \<open>read_hdf5\<close> submits the
  command built from the rank. Under the default limit of 4300 digits the rank \<open>10 ^ 4300\<close>,
  which has 4301 digits, makes the f-string raise \<open>ValueError\<close> before the messaging client is
  called: nothing is submitted.
\<close>

theorem read_hdf5_command_counterexample:
  "(0::int) < 10 ^ 4300
   \<and> int_max_str_digits demo_py = 4300
   \<and> msg_calls (events_of (read_hdf5 demo_py demo_env ''data.h5'' ''temps'' (10 ^ 4300))
        (demo_state 0)) = []
   \<and> fst (read_hdf5 demo_py demo_env ''data.h5'' ''temps'' (10 ^ 4300) (demo_state 0))
       = Inl ''ValueError: Exceeds the limit for integer string conversion''"
proof (intro conjI)
  show "(0::int) < 10 ^ 4300"
    by (rule zero_less_power) simp
  show "int_max_str_digits demo_py = 4300"
    by (rule demo_limit)
  show "msg_calls (events_of (read_hdf5 demo_py demo_env ''data.h5'' ''temps'' (10 ^ 4300))
          (demo_state 0)) = []"
    by (simp only: read_hdf5_msg_calls demo_over_limit_pos if_False)
  show "fst (read_hdf5 demo_py demo_env ''data.h5'' ''temps'' (10 ^ 4300) (demo_state 0))
          = Inl ''ValueError: Exceeds the limit for integer string conversion''"
    by (simp only: read_hdf5_result demo_over_limit_pos if_False demo_str_digits_error)
qed

text \<open>
  C2, amended: for every rank in 1, 2, 3, ... that is within the interpreter's limit on the
  digits of a converted integer (every such rank when the limit is off, the ranks below
  \<open>10 ^ 4300\<close> by default, see \<open>within_limit_iff\<close>), the one command \<open>read_hdf5\<close> submits to
  the messaging client is \<open>readSingleHdfArray\<close>, followed by the decimal representation of
  the rank, followed by \<open>D\<close>. The representation \<open>str_int rank\<close> consists of decimal digits
  only, does not start with the digit zero, and read as a decimal numeral it is the rank.
  At rank 2 the command is \<open>readSingleHdfArray2D\<close>.
\<close>

theorem read_hdf5_command:
  assumes "0 < rank" and "within_limit (int_max_str_digits py) rank"
  shows "msg_calls (events_of (read_hdf5 py env filename dataset rank) s) =
           [(''readSingleHdfArray'' @ str_int rank @ ''D'',
             [(''dset'', dataset), (''filename'', filename)])]
         \<and> list_all is_digit (str_int rank)
         \<and> take 1 (str_int rank) \<noteq> ''0''
         \<and> int (nat_of_digits (str_int rank)) = rank"
proof -
  from assms have pos: "0 < nat rank" and eq: "str_int rank = str_nat (nat rank)"
    by (simp_all add: str_int_pos)
  have "take 1 (str_int rank) \<noteq> ''0''"
    unfolding eq by (rule str_nat_leading [OF pos])
  moreover have "list_all is_digit (str_int rank)"
    unfolding eq by (rule str_nat_digits)
  moreover from assms have "int (nat_of_digits (str_int rank)) = rank"
    unfolding eq by (simp add: nat_of_digits_str_nat)
  ultimately show ?thesis
    using assms(2) by (simp only: read_hdf5_msg_calls if_True simp_thms)
qed

theorem read_hdf5_command_witness:
  "(0::int) < 2
   \<and> within_limit (int_max_str_digits demo_py) 2
   \<and> msg_calls (events_of (read_hdf5 demo_py demo_env ''data.h5'' ''temps'' 2) (demo_state 0)) =
       [(''readSingleHdfArray2D'', [(''dset'', ''temps''), (''filename'', ''data.h5'')])]
   \<and> int (nat_of_digits ''2'') = 2"
  using read_hdf5_command [of 2 demo_py demo_env "''data.h5''" "''temps''" "demo_state 0"]
  by (simp add: within_limit_small str_int_2)

text \<open>
  C3: the argument dictionary that \<open>read_hdf5\<close> submits is exactly
  \<open>{"dset": dataset, "filename": filename}\<close>: these two items, the strings as they were
  passed in, and no other key. This holds of every call it submits: there is one when the
  rank is within the digit limit and none otherwise.
\<close>

theorem read_hdf5_args:
  "map snd (msg_calls (events_of (read_hdf5 py env filename dataset rank) s)) =
     (if within_limit (int_max_str_digits py) rank
      then [[(''dset'', dataset), (''filename'', filename)]] else [])
   \<and> map (map_of \<circ> snd) (msg_calls (events_of (read_hdf5 py env filename dataset rank) s)) =
       (if within_limit (int_max_str_digits py) rank
        then [[''dset'' \<mapsto> dataset, ''filename'' \<mapsto> filename]] else [])
   \<and> map (dom \<circ> map_of \<circ> snd) (msg_calls (events_of (read_hdf5 py env filename dataset rank) s)) =
       (if within_limit (int_max_str_digits py) rank then [{''dset'', ''filename''}] else [])"
  by (auto simp add: read_hdf5_msg_calls)

theorem read_hdf5_args_witness:
  "map snd (msg_calls (events_of (read_hdf5 demo_py demo_env ''data.h5'' ''temps'' 2) (demo_state 0))) =
     [[(''dset'', ''temps''), (''filename'', ''data.h5'')]]
   \<and> map (map_of \<circ> snd)
        (msg_calls (events_of (read_hdf5 demo_py demo_env ''data.h5'' ''temps'' 2) (demo_state 0))) =
       [[''dset'' \<mapsto> ''temps'', ''filename'' \<mapsto> ''data.h5'']]"
  using read_hdf5_args [of demo_py demo_env "''data.h5''" "''temps''" 2 "demo_state 0"]
  by (simp add: within_limit_small)

text \<open>
  C7 as the specification words it: for every integer rank, negative ranks included,
  \<open>read_hdf5\<close> still submits the command built from the rank. Under the default limit of
  4300 digits the rank \<open>- (10 ^ 4300)\<close> makes the f-string raise: \<open>read_hdf5\<close> submits
  nothing and does nothing else.
\<close>

theorem read_hdf5_any_rank_counterexample:
  "int_max_str_digits demo_py = 4300
   \<and> msg_calls (events_of (read_hdf5 demo_py demo_env ''data.h5'' ''temps'' (- (10 ^ 4300)))
        (demo_state 0)) = []
   \<and> events_of (read_hdf5 demo_py demo_env ''data.h5'' ''temps'' (- (10 ^ 4300))) (demo_state 0) = []"
proof (intro conjI)
  show "int_max_str_digits demo_py = 4300"
    by (rule demo_limit)
  show "msg_calls (events_of (read_hdf5 demo_py demo_env ''data.h5'' ''temps'' (- (10 ^ 4300)))
          (demo_state 0)) = []"
    by (simp only: read_hdf5_msg_calls demo_over_limit_neg if_False)
  show "events_of (read_hdf5 demo_py demo_env ''data.h5'' ''temps'' (- (10 ^ 4300))) (demo_state 0) = []"
    by (simp only: read_hdf5_events demo_over_limit_neg if_False)
qed

text \<open>
  C7, amended: \<open>read_hdf5\<close> does not check the range of the rank. For every integer rank
  within the interpreter's limit on the digits of a converted integer, zero and negative
  ranks too, it submits the command made of \<open>readSingleHdfArray\<close>, \<open>str(rank)\<close> and \<open>D\<close>,
  where \<open>str(rank)\<close> read back as a signed decimal numeral is the rank; for a rank beyond the
  limit it submits nothing. Rank 0 gives \<open>readSingleHdfArray0D\<close> and rank -1 gives
  \<open>readSingleHdfArray-1D\<close>, whatever the limit. The arguments submitted at two ranks within
  the limit are the same, and the outcome at a rank within the limit is decided by what
  \<open>read_hdf5\<close> calls, not by the rank.
\<close>

theorem read_hdf5_any_rank:
  "msg_calls (events_of (read_hdf5 py env filename dataset rank) s) =
     (if within_limit (int_max_str_digits py) rank
      then [(''readSingleHdfArray'' @ str_int rank @ ''D'',
             [(''dset'', dataset), (''filename'', filename)])]
      else [])
   \<and> int_of_str (str_int rank) = rank
   \<and> msg_calls (events_of (read_hdf5 py env filename dataset 0) s) =
       [(''readSingleHdfArray0D'', [(''dset'', dataset), (''filename'', filename)])]
   \<and> msg_calls (events_of (read_hdf5 py env filename dataset (- 1)) s) =
       [(''readSingleHdfArray-1D'', [(''dset'', dataset), (''filename'', filename)])]
   \<and> (within_limit (int_max_str_digits py) rank \<longrightarrow> within_limit (int_max_str_digits py) rank'
        \<longrightarrow> map snd (msg_calls (events_of (read_hdf5 py env filename dataset rank) s)) =
            map snd (msg_calls (events_of (read_hdf5 py env filename dataset rank') s)))
   \<and> (within_limit (int_max_str_digits py) rank
        \<longrightarrow> fst (read_hdf5 py env filename dataset rank s) =
             (case fst (generic_msg env (''readSingleHdfArray'' @ str_int rank @ ''D'')
                          [(''dset'', dataset), (''filename'', filename)] (backend s)) of
                Inl e \<Rightarrow> Inl e
              | Inr repMsg \<Rightarrow>
                  (case print_error py repMsg of
                     Some e \<Rightarrow> Inl e
                   | None \<Rightarrow>
                       (case create_pdarray env repMsg of
                          Inl e \<Rightarrow> Inl e
                        | Inr x \<Rightarrow> Array_new env x))))"
proof -
  have "str_int 0 = ''0''" and "str_int (- 1) = ''-1''"
    by (simp_all add: str_int_def str_nat.simps digit_char_def)
  then show ?thesis
    by (simp add: read_hdf5_msg_calls int_of_str_str_int read_hdf5_result within_limit_small)
qed

theorem read_hdf5_any_rank_witness:
  "within_limit (int_max_str_digits demo_py) (- 7)
   \<and> within_limit (int_max_str_digits demo_py) 0
   \<and> msg_calls (events_of (read_hdf5 demo_py demo_env ''data.h5'' ''temps'' (- 7)) (demo_state 0)) =
       [(''readSingleHdfArray-7D'', [(''dset'', ''temps''), (''filename'', ''data.h5'')])]
   \<and> map snd (msg_calls (events_of (read_hdf5 demo_py demo_env ''data.h5'' ''temps'' (- 7))
        (demo_state 0))) =
       map snd (msg_calls (events_of (read_hdf5 demo_py demo_env ''data.h5'' ''temps'' 0)
        (demo_state 0)))
   \<and> fst (read_hdf5 demo_py demo_env ''data.h5'' ''temps'' (- 7) (demo_state 0))
       = Inr (Array_obj (Pdarray_obj ''readSingleHdfArray-7D''))"
proof -
  have d: "str_int (- 7) = ''-7''"
    by (simp add: str_int_def str_nat.simps digit_char_def)
  have m: "fst (generic_msg demo_env ''readSingleHdfArray-7D''
             [(''dset'', ''temps''), (''filename'', ''data.h5'')] (backend (demo_state 0)))
           = Inr ''created readSingleHdfArray-7D''"
    by (simp add: demo_simps)
  have c: "create_pdarray demo_env ''created readSingleHdfArray-7D''
           = Inr (Pdarray_obj ''readSingleHdfArray-7D'')"
    by (simp add: demo_simps)
  show ?thesis
    using read_hdf5_any_rank [of demo_py demo_env "''data.h5''" "''temps''" "- 7" "demo_state 0" 0]
    by (simp add: within_limit_small d m c demo_prints demo_wraps)
qed

subsection \<open>\<open>lshdf\<close>\<close>

text \<open>
  C4: \<open>lshdf\<close> submits exactly one command to the messaging client, \<open>lshdf\<close>, with the
  argument dictionary \<open>{"filename": filename}\<close>, does nothing else, and returns the
  outcome of that call as it is.
\<close>

theorem lshdf_forwards:
  "events_of (lshdf env filename) s = [Msg ''lshdf'' [(''filename'', filename)]]
   \<and> msg_calls (events_of (lshdf env filename) s) = [(''lshdf'', [(''filename'', filename)])]
   \<and> map (map_of \<circ> snd) (msg_calls (events_of (lshdf env filename) s)) = [[''filename'' \<mapsto> filename]]
   \<and> fst (lshdf env filename s)
       = fst (generic_msg env ''lshdf'' [(''filename'', filename)] (backend s))
   \<and> backend (snd (lshdf env filename s))
       = snd (generic_msg env ''lshdf'' [(''filename'', filename)] (backend s))"
  by (auto simp add: lshdf_events lshdf_result lshdf_unfold split: prod.splits)

subsection \<open>Errors\<close>

text \<open>
  C5 as the specification words it: \<open>read_hdf5\<close> raises if and only if the messaging client
  or the handle constructor raises. With standard output closed, reading \<open>temps\<close> from
  \<open>data.h5\<close> at rank 2 raises the \<open>ValueError\<close> of \<open>print\<close>: the messaging client has
  returned a reply, the handle constructor is never called, and it would not raise on that
  reply either.
\<close>

theorem errors_counterexample:
  "fst (generic_msg demo_env (''readSingleHdfArray'' @ str_int 2 @ ''D'')
          [(''dset'', ''temps''), (''filename'', ''data.h5'')] (backend (demo_state 0)))
     = Inr ''created readSingleHdfArray2D''
   \<and> create_pdarray demo_env ''created readSingleHdfArray2D'' = Inr (Pdarray_obj ''readSingleHdfArray2D'')
   \<and> ctor_calls (events_of (read_hdf5 closed_stdout_py demo_env ''data.h5'' ''temps'' 2)
        (demo_state 0)) = []
   \<and> fst (read_hdf5 closed_stdout_py demo_env ''data.h5'' ''temps'' 2 (demo_state 0))
       = Inl ''ValueError: I/O operation on closed file''"
  by (simp add: read_hdf5_events read_hdf5_result within_limit_small str_int_2 demo_read_temps
      demo_handle_temps closed_stdout_raises)

text \<open>
  C5, amended. Neither function validates anything, raises by itself or catches anything;
  an exception raised by something it calls goes to the caller as it is. \<open>lshdf\<close> raises
  \<open>e\<close> exactly when the messaging client raises \<open>e\<close>. \<open>read_hdf5\<close> raises \<open>e\<close> exactly
  when one of the steps it runs raises \<open>e\<close>, in this order: the conversion of the rank to a
  string (for a rank beyond the interpreter's digit limit), the messaging client, \<open>print\<close>
  of the reply, the handle constructor on the reply, \<open>Array._new\<close> on the handle.
\<close>

theorem errors_come_from_callees:
  "(fst (read_hdf5 py env filename dataset rank s) = Inl e) =
     (if within_limit (int_max_str_digits py) rank then
        (case fst (generic_msg env (''readSingleHdfArray'' @ str_int rank @ ''D'')
                     [(''dset'', dataset), (''filename'', filename)] (backend s)) of
           Inl e' \<Rightarrow> e' = e
         | Inr repMsg \<Rightarrow>
             (case print_error py repMsg of
                Some e' \<Rightarrow> e' = e
              | None \<Rightarrow>
                  (case create_pdarray env repMsg of
                     Inl e' \<Rightarrow> e' = e
                   | Inr x \<Rightarrow> Array_new env x = Inl e)))
      else e = str_digits_error py)
   \<and> (fst (lshdf env filename s) = Inl e) =
       (fst (generic_msg env ''lshdf'' [(''filename'', filename)] (backend s)) = Inl e)"
  by (auto simp add: read_hdf5_result lshdf_result split: sum.splits option.splits)

subsection \<open>Console output\<close>




text \<open>
  C9: \<open>lshdf\<close> prints nothing; it does not call the handle constructor or \<open>Array._new\<close>
  either.
\<close>

theorem lshdf_silent:
  "printed (events_of (lshdf env filename) s) = []
   \<and> ctor_calls (events_of (lshdf env filename) s) = []
   \<and> new_calls (events_of (lshdf env filename) s) = []"
  by (simp add: lshdf_events)

subsection \<open>Determinism\<close>



end
